theory Spec2Isabelle
  imports Complex_Main
begin

section \<open>filter-reputation: session reputation scoring for an SMTP filter\<close>

text \<open>
  The repository holds two programs of package \<open>main\<close>, each registering the same set of
  event handlers with the filter framework:
  \<^item> \<^verbatim>\<open>src/unnamed/part_000\<close>: per-transaction and per-session scores, a history of past
    session summaries per address (\<open>ipScoring\<close>) and its periodic sweep;
  \<^item> \<^verbatim>\<open>src/filter-reputation.go\<close>: running trust values per resource, moved by
    \<open>applyReward\<close> and \<open>applyPenalty\<close>, fed back into the \<open>Reputation\<close> tables at
    disconnect.
  Both declare \<open>SessionData\<close> and the handlers \<open>linkConnectCb\<close> ... \<open>txRollbackCb\<close>. The
  names of \<^verbatim>\<open>part_000\<close> are kept as they are; the clashing names of
  \<^verbatim>\<open>filter-reputation.go\<close> carry the suffix \<open>B\<close>.

  Modelling conventions.
  \<^item> Go's \<open>float64\<close> is modelled by \<open>real\<close>: every sum, product and quotient is exact, the
    rounding of IEEE arithmetic is not modelled. No operation of the code produces a NaN
    or an infinity from finite operands (the only division has a positive length as its
    divisor), so \<open>math.Max\<close> and \<open>math.Min\<close> are \<open>max\<close> and \<open>min\<close>.
  \<^item> Go's \<open>int\<close> counters are modelled by \<open>int\<close>. They start at 0 in a fresh session and
    move by one per event, so the wrap-around at \<open>2^63\<close> is not modelled.
  \<^item> \<open>time.Time\<close> is an \<open>int\<close>, a count of nanoseconds; \<open>time.Now()\<close> is a parameter.
  \<^item> \<open>net.IP\<close> is modelled by its textual form, the only way the code uses it
    (\<open>ip.String()\<close> is the key of every table).
  \<^item> A run-time panic (index out of range, failed type assertion) is the value \<open>Inl\<close> of
    a result type.
  \<^item> \<open>strings.ToLower\<close> of the Go library (Unicode-aware) is not translated. The two
    handlers that call it take the function as their first parameter \<open>ToLower\<close>, and
    every theorem about them holds for every function, Go's among them.
\<close>

subsection \<open>Data of \<^verbatim>\<open>part_000\<close>\<close>

type_synonym Time = int

type_synonym IP = string

definition IP_String :: "IP \<Rightarrow> string" where
  "IP_String ip = ip"

record Scoring =
  Timestamp :: Time
  Score :: real
  AuthFailures :: int
  AuthSuccesses :: int
  Resets :: int
  RcptCount :: int
  DataCount :: int
  CommitCount :: int
  RollbackCount :: int

record Transaction =
  beginTime :: Time
  endTime :: Time
  mailFromOK :: bool
  rcptToOK :: int
  rcptToTempfail :: int
  rcptToPermfail :: int
  sawData :: bool
  committed :: bool

record SessionData =
  skip :: bool
  connectTime :: Time
  disconnectTime :: Time
  addr :: IP
  rdns :: bool
  fcrdns :: bool
  cmdHelo :: bool
  cmdEhlo :: bool
  heloname :: string
  cmdAuth :: bool
  authok :: int
  authfail :: int
  cmdTLS :: bool
  tlsString :: string
  nResets :: int
  transactions :: "Transaction list"

subsection \<open>The scorers of \<^verbatim>\<open>part_000\<close>\<close>

text \<open>
  \<open>scoreTransaction\<close>: the local \<open>baseScore\<close> is updated statement by statement; each
  \<open>let\<close> below is one statement of the source.
\<close>

definition scoreTransaction :: "Transaction \<Rightarrow> real" where
  "scoreTransaction tx =
     (let validSenderWeight = 0.4;
          dataWeight = 0.3;
          commitWeight = 0.3;
          successfulRecipientWeight = 0.1;
          failedRecipientPenalty = 0.2;
          baseScore = 0;
          baseScore = (if mailFromOK tx then baseScore + validSenderWeight else baseScore);
          baseScore = (if sawData tx then baseScore + dataWeight else baseScore);
          baseScore = (if committed tx then baseScore + commitWeight else baseScore);
          baseScore = baseScore + real_of_int (rcptToOK tx) * successfulRecipientWeight;
          baseScore = baseScore
            - real_of_int (rcptToTempfail tx + rcptToPermfail tx) * failedRecipientPenalty
      in max 0 (min 1 baseScore))"

text \<open>
  \<open>scoreSession\<close>: the \<open>for ... range session.transactions\<close> loop that accumulates
  \<open>transactionScore\<close> is a left-to-right \<open>fold\<close>.
\<close>

definition scoreSession :: "SessionData \<Rightarrow> real" where
  "scoreSession session =
     (let authSuccessWeight = 0.1;
          authFailurePenalty = 0.1;
          tlsWeight = 0.2;
          rdnsWeight = 0.1;
          fcrdnsWeight = 0.1;
          resetPenalty = 0.05;
          baseScore = 0;
          totalTransactions = length (transactions session);
          baseScore =
            (if totalTransactions > 0
             then let transactionScore =
                        fold (\<lambda>tx acc. acc + scoreTransaction tx) (transactions session) 0
                  in baseScore + transactionScore / real totalTransactions
             else baseScore);
          baseScore = baseScore + real_of_int (authok session) * authSuccessWeight;
          baseScore = baseScore - real_of_int (authfail session) * authFailurePenalty;
          baseScore = (if cmdTLS session then baseScore + tlsWeight else baseScore);
          baseScore = (if rdns session then baseScore + rdnsWeight else baseScore);
          baseScore = (if fcrdns session then baseScore + fcrdnsWeight else baseScore);
          baseScore = baseScore - real_of_int (nResets session) * resetPenalty
      in max 0 (min 1 baseScore))"

text \<open>
  \<open>summarizeSession\<close>: one loop over the transactions updates four counters; the clock
  reading \<open>time.Now()\<close> is the parameter \<open>now\<close>.
\<close>

definition summarizeSession :: "Time \<Rightarrow> SessionData \<Rightarrow> Scoring" where
  "summarizeSession now session =
     (let (rcptCount, dataCount, commitCount, rollbackCount) =
            fold (\<lambda>tx (rcptCount, dataCount, commitCount, rollbackCount).
                    (rcptCount + (rcptToOK tx + rcptToTempfail tx + rcptToPermfail tx),
                     (if sawData tx then dataCount + 1 else dataCount),
                     (if committed tx then commitCount + 1 else commitCount),
                     (if committed tx then rollbackCount else rollbackCount + 1)))
                 (transactions session) (0, 0, 0, 0)
      in \<lparr>Timestamp = now,
          Score = scoreSession session,
          AuthFailures = authfail session,
          AuthSuccesses = authok session,
          Resets = nResets session,
          RcptCount = rcptCount,
          DataCount = dataCount,
          CommitCount = commitCount,
          RollbackCount = rollbackCount\<rparr>)"

text \<open>The zero value \<open>Scoring{}\<close>.\<close>

definition zeroScoring :: Scoring where
  "zeroScoring = \<lparr>Timestamp = 0, Score = 0, AuthFailures = 0, AuthSuccesses = 0,
     Resets = 0, RcptCount = 0, DataCount = 0, CommitCount = 0, RollbackCount = 0\<rparr>"

definition aggregateScoring :: "Scoring list \<Rightarrow> Scoring" where
  "aggregateScoring scores =
     (if length scores = 0 then zeroScoring
      else
        let totalScores = length scores;
            aggregate = zeroScoring;
            aggregate =
              fold (\<lambda>score aggregate.
                      aggregate\<lparr>Score := Score aggregate + Score score,
                        AuthFailures := AuthFailures aggregate + AuthFailures score,
                        AuthSuccesses := AuthSuccesses aggregate + AuthSuccesses score,
                        Resets := Resets aggregate + Resets score,
                        RcptCount := RcptCount aggregate + RcptCount score,
                        DataCount := DataCount aggregate + DataCount score,
                        CommitCount := CommitCount aggregate + CommitCount score,
                        RollbackCount := RollbackCount aggregate + RollbackCount score\<rparr>)
                   scores aggregate;
            aggregate = aggregate\<lparr>Score := Score aggregate / real totalScores\<rparr>
        in aggregate)"

subsection \<open>The shared history, the log and the handlers of \<^verbatim>\<open>part_000\<close>\<close>

text \<open>
  \<open>ipScoring\<close> is a Go map from the address text to the slice of summaries. What the
  handlers and the sweep print to standard error is kept as a list of lines, since the
  score computed at connect is only ever printed.
\<close>

type_synonym Store = "string \<rightharpoonup> Scoring list"

datatype LogLine =
    LogConnect string real
  | LogDisconnect string real
  | LogTxBegin Time
  | LogTxMail Time
  | LogTxCommit real
  | LogTxRollback real
  | LogDeleting string

text \<open>
  A \<open>net.Addr\<close> is an interface value; the code only asks whether it is a
  \<open>*net.TCPAddr\<close>. \<open>UnixAddr\<close> is the other address the mail server reports (a local
  socket).
\<close>

datatype Addr = TCPAddr IP int | UnixAddr string

datatype panic = IndexOutOfRange | TypeAssertionFailed

text \<open>
  The state one handler call works on: the connection's session (\<open>session.Get()\<close>), the
  package-level \<open>ipScoring\<close> and the lines written so far.
\<close>

record World =
  session :: SessionData
  ipScoring :: Store
  stderr :: "LogLine list"

definition linkConnectCb ::
  "Time \<Rightarrow> string \<Rightarrow> string \<Rightarrow> Addr \<Rightarrow> Addr \<Rightarrow> World \<Rightarrow> panic + World" where
  "linkConnectCb timestamp rdns_s fcrdns_s src dest w =
     (case src of
        TCPAddr ip port \<Rightarrow>
          let s = session w;
              s = s\<lparr>transactions := []\<rparr>;
              s = s\<lparr>connectTime := timestamp\<rparr>;
              s = s\<lparr>addr := ip\<rparr>;
              s = s\<lparr>rdns := (rdns_s \<noteq> ''<unknown>'')\<rparr>;
              s = s\<lparr>fcrdns := (fcrdns_s = ''ok'' \<or> fcrdns_s = ''pass'')\<rparr>;
              score =
                (case ipScoring w (IP_String (addr s)) of
                   None \<Rightarrow> 0.5
                 | Some scorings \<Rightarrow>
                     if length scorings < 5 then 0.5
                     else Score (aggregateScoring scorings))
          in Inr (w\<lparr>session := s,
                    stderr := stderr w @ [LogConnect (IP_String ip) score]\<rparr>)
      | _ \<Rightarrow> Inr (w\<lparr>session := (session w)\<lparr>skip := True\<rparr>\<rparr>))"

text \<open>
  \<open>append(ipScoring[k], x)\<close>: a missing key reads as the nil slice, so the new sequence
  is the old one (or the empty one) with \<open>x\<close> at its end.
\<close>

definition linkDisconnectCb :: "Time \<Rightarrow> Time \<Rightarrow> World \<Rightarrow> panic + World" where
  "linkDisconnectCb now timestamp w =
     (if skip (session w) then Inr w
      else
        let s = (session w)\<lparr>disconnectTime := timestamp\<rparr>;
            k = IP_String (addr s);
            old = (case ipScoring w k of None \<Rightarrow> [] | Some scorings \<Rightarrow> scorings)
        in Inr (w\<lparr>session := s,
                  ipScoring := (ipScoring w)(k \<mapsto> old @ [summarizeSession now s]),
                  stderr := stderr w @ [LogDisconnect k (scoreSession s)]\<rparr>))"

definition linkIdentifyCb :: "Time \<Rightarrow> string \<Rightarrow> string \<Rightarrow> World \<Rightarrow> panic + World" where
  "linkIdentifyCb timestamp method hostname w =
     (if skip (session w) then Inr w
      else
        let s = session w;
            s = (if method = ''HELO'' then s\<lparr>cmdHelo := True\<rparr> else s);
            s = (if method = ''EHLO'' then s\<lparr>cmdEhlo := True\<rparr> else s);
            s = s\<lparr>heloname := hostname\<rparr>
        in Inr (w\<lparr>session := s\<rparr>))"

definition linkAuthCb :: "Time \<Rightarrow> string \<Rightarrow> string \<Rightarrow> World \<Rightarrow> panic + World" where
  "linkAuthCb timestamp result username w =
     (if skip (session w) then Inr w
      else
        let s = (session w)\<lparr>cmdAuth := True\<rparr>;
            s = (if result = ''ok'' then s\<lparr>authok := authok s + 1\<rparr>
                 else s\<lparr>authfail := authfail s + 1\<rparr>)
        in Inr (w\<lparr>session := s\<rparr>))"

definition linkTLSCb :: "Time \<Rightarrow> string \<Rightarrow> World \<Rightarrow> panic + World" where
  "linkTLSCb timestamp tls w =
     (if skip (session w) then Inr w
      else Inr (w\<lparr>session := (session w)\<lparr>cmdTLS := True, tlsString := tls\<rparr>\<rparr>))"

definition txResetCb :: "Time \<Rightarrow> string \<Rightarrow> World \<Rightarrow> panic + World" where
  "txResetCb timestamp messageId w =
     (if skip (session w) then Inr w
      else Inr (w\<lparr>session := (session w)\<lparr>nResets := nResets (session w) + 1\<rparr>\<rparr>))"

definition txBeginCb :: "Time \<Rightarrow> string \<Rightarrow> World \<Rightarrow> panic + World" where
  "txBeginCb timestamp messageId w =
     (if skip (session w) then Inr w
      else
        let tx = \<lparr>beginTime = timestamp, endTime = 0, mailFromOK = False, rcptToOK = 0,
                  rcptToTempfail = 0, rcptToPermfail = 0, sawData = False,
                  committed = False\<rparr>
        in Inr (w\<lparr>session := (session w)\<lparr>transactions := transactions (session w) @ [tx]\<rparr>,
                  stderr := stderr w @ [LogTxBegin timestamp]\<rparr>))"

text \<open>
  The transaction handlers all read \<open>transactions[len(transactions)-1]\<close>, a pointer,
  and write through it. \<open>updLastTx f\<close> is that read followed by the writes \<open>f\<close>: on an
  empty slice the index \<open>-1\<close> is out of range and the Go run time panics.
\<close>

definition updLastTx :: "(Transaction \<Rightarrow> Transaction) \<Rightarrow> SessionData \<Rightarrow> panic + SessionData" where
  "updLastTx f s =
     (let txs = transactions s; n = length txs
      in if n = 0 then Inl IndexOutOfRange
         else Inr (s\<lparr>transactions := txs[n - 1 := f (txs ! (n - 1))]\<rparr>))"

definition txMailCb :: "Time \<Rightarrow> string \<Rightarrow> string \<Rightarrow> string \<Rightarrow> World \<Rightarrow> panic + World" where
  "txMailCb timestamp messageId result from w =
     (if skip (session w) then Inr w
      else
        let w = w\<lparr>stderr := stderr w @ [LogTxMail timestamp]\<rparr>
        in case updLastTx (\<lambda>tx. if result = ''ok'' then tx\<lparr>mailFromOK := True\<rparr> else tx)
                  (session w) of
             Inl e \<Rightarrow> Inl e
           | Inr s \<Rightarrow> Inr (w\<lparr>session := s\<rparr>))"

definition txRcptCb :: "Time \<Rightarrow> string \<Rightarrow> string \<Rightarrow> string \<Rightarrow> World \<Rightarrow> panic + World" where
  "txRcptCb timestamp messageId result to w =
     (if skip (session w) then Inr w
      else
        case updLastTx
               (\<lambda>tx. if result = ''ok'' then tx\<lparr>rcptToOK := rcptToOK tx + 1\<rparr>
                     else if result = ''tempfail''
                       then tx\<lparr>rcptToTempfail := rcptToTempfail tx + 1\<rparr>
                     else if result = ''permfail''
                       then tx\<lparr>rcptToPermfail := rcptToPermfail tx + 1\<rparr>
                     else tx)
               (session w) of
          Inl e \<Rightarrow> Inl e
        | Inr s \<Rightarrow> Inr (w\<lparr>session := s\<rparr>))"

definition txDataCb :: "Time \<Rightarrow> string \<Rightarrow> string \<Rightarrow> World \<Rightarrow> panic + World" where
  "txDataCb timestamp messageId result w =
     (if skip (session w) then Inr w
      else
        case updLastTx (\<lambda>tx. tx\<lparr>sawData := True\<rparr>) (session w) of
          Inl e \<Rightarrow> Inl e
        | Inr s \<Rightarrow> Inr (w\<lparr>session := s\<rparr>))"

definition txCommitCb :: "Time \<Rightarrow> string \<Rightarrow> int \<Rightarrow> World \<Rightarrow> panic + World" where
  "txCommitCb timestamp messageId messageSize w =
     (if skip (session w) then Inr w
      else
        case updLastTx (\<lambda>tx. tx\<lparr>endTime := timestamp, committed := True\<rparr>) (session w) of
          Inl e \<Rightarrow> Inl e
        | Inr s \<Rightarrow>
            Inr (w\<lparr>session := s,
                   stderr := stderr w @ [LogTxCommit (scoreTransaction (last (transactions s)))]\<rparr>))"

definition txRollbackCb :: "Time \<Rightarrow> string \<Rightarrow> World \<Rightarrow> panic + World" where
  "txRollbackCb timestamp messageId w =
     (if skip (session w) then Inr w
      else
        case updLastTx (\<lambda>tx. tx\<lparr>endTime := timestamp\<rparr>) (session w) of
          Inl e \<Rightarrow> Inl e
        | Inr s \<Rightarrow>
            Inr (w\<lparr>session := s,
                   stderr := stderr w @ [LogTxRollback (scoreTransaction (last (transactions s)))]\<rparr>))"

text \<open>
  The events the framework delivers, with the fields the handlers receive, and the
  dispatch \<open>filter.SMTP_IN.On...\<close> registers in \<open>main\<close>.
\<close>

datatype Event =
    LinkConnect Time string string Addr Addr
  | LinkDisconnect Time
  | LinkIdentify Time string string
  | LinkAuth Time string string
  | LinkTLS Time string
  | TxReset Time string
  | TxBegin Time string
  | TxMail Time string string string
  | TxRcpt Time string string string
  | TxData Time string string
  | TxCommit Time string int
  | TxRollback Time string

fun handle :: "Time \<Rightarrow> Event \<Rightarrow> World \<Rightarrow> panic + World" where
  "handle now (LinkConnect t r f src dest) w = linkConnectCb t r f src dest w"
| "handle now (LinkDisconnect t) w = linkDisconnectCb now t w"
| "handle now (LinkIdentify t m h) w = linkIdentifyCb t m h w"
| "handle now (LinkAuth t r u) w = linkAuthCb t r u w"
| "handle now (LinkTLS t s) w = linkTLSCb t s w"
| "handle now (TxReset t i) w = txResetCb t i w"
| "handle now (TxBegin t i) w = txBeginCb t i w"
| "handle now (TxMail t i r a) w = txMailCb t i r a w"
| "handle now (TxRcpt t i r a) w = txRcptCb t i r a w"
| "handle now (TxData t i r) w = txDataCb t i r w"
| "handle now (TxCommit t i n) w = txCommitCb t i n w"
| "handle now (TxRollback t i) w = txRollbackCb t i w"

text \<open>
  A sequence of events on one session: the process stops at the first panic. Each event
  comes with the clock reading of its handling.
\<close>

fun run :: "(Time \<times> Event) list \<Rightarrow> World \<Rightarrow> panic + World" where
  "run [] w = Inr w"
| "run ((now, e) # es) w =
     (case handle now e w of Inl p \<Rightarrow> Inl p | Inr w' \<Rightarrow> run es w')"

text \<open>The session \<open>&SessionData{}\<close> the allocator returns.\<close>

definition newSessionData :: SessionData where
  "newSessionData =
     \<lparr>skip = False, connectTime = 0, disconnectTime = 0, addr = [], rdns = False,
      fcrdns = False, cmdHelo = False, cmdEhlo = False, heloname = [], cmdAuth = False,
      authok = 0, authfail = 0, cmdTLS = False, tlsString = [], nResets = 0,
      transactions = []\<rparr>"

subsection \<open>The maintenance sweep of \<^verbatim>\<open>part_000\<close>\<close>

text \<open>
  One pass of the loop in \<open>init\<close>, between \<open>Lock\<close> and \<open>Unlock\<close>. \<open>sweepKey\<close> is the loop
  body for one key. Go does not fix the order in which \<open>range\<close> visits the keys of a map,
  so the pass takes the order \<open>ks\<close> as a parameter. \<open>scoring[len(scoring)-1]\<close> on an
  empty slice panics.
\<close>

definition fiveDays :: int where
  "fiveDays = 5 * 24 * (3600 * 1000000000)"

definition sweepKey :: "Time \<Rightarrow> string \<Rightarrow> Store \<times> LogLine list \<Rightarrow> panic + Store \<times> LogLine list" where
  "sweepKey now ip st =
     (case fst st ip of
        None \<Rightarrow> Inr st
      | Some scoring \<Rightarrow>
          if length scoring > 100
          then Inr ((fst st)(ip \<mapsto> drop (length scoring - 100) scoring), snd st)
          else if length scoring = 0 then Inl IndexOutOfRange
          else if Timestamp (scoring ! (length scoring - 1)) + fiveDays < now
          then Inr ((fst st)(ip := None), snd st @ [LogDeleting ip])
          else Inr st)"

fun sweepPass :: "Time \<Rightarrow> string list \<Rightarrow> Store \<times> LogLine list \<Rightarrow> panic + Store \<times> LogLine list" where
  "sweepPass now [] st = Inr st"
| "sweepPass now (ip # ips) st =
     (case sweepKey now ip st of Inl p \<Rightarrow> Inl p | Inr st' \<Rightarrow> sweepPass now ips st')"

subsection \<open>The reward and penalty model of \<^verbatim>\<open>filter-reputation.go\<close>\<close>

definition basePenalty :: real where
  "basePenalty = 0.1"

definition baseReward :: real where
  "baseReward = 0.05"

definition degradationFactors :: "string \<rightharpoonup> real" where
  "degradationFactors =
     map_of [(''IP'', 1.0), (''rDNS'', 0.8), (''heloname'', 0.6), (''mailFrom'', 0.4),
             (''mailDomain'', 0.2), (''recipient'', 0.5)]"

definition ipWeight :: real where
  "ipWeight = 0.5"

definition rdnsWeight :: real where
  "rdnsWeight = 0.3"

definition helonameWeight :: real where
  "helonameWeight = 0.2"

definition clamp :: "real \<Rightarrow> real \<Rightarrow> real \<Rightarrow> real" where
  "clamp v lo hi = (if v < lo then lo else if v > hi then hi else v)"

text \<open>
  \<open>degradationFactors[resourceType]\<close> is a Go map index expression: for a key that is
  not in the map it yields the zero value \<open>0.0\<close>.
\<close>

definition applyPenalty :: "string \<Rightarrow> real \<Rightarrow> real" where
  "applyPenalty resourceType reputationScore =
     (let penalty = basePenalty *
            (case degradationFactors resourceType of None \<Rightarrow> 0 | Some f \<Rightarrow> f)
      in clamp (reputationScore - penalty) 0 1)"

definition applyReward :: "string \<Rightarrow> real \<Rightarrow> real" where
  "applyReward resourceType reputationScore =
     (let reward = baseReward *
            (case degradationFactors resourceType of None \<Rightarrow> 0 | Some f \<Rightarrow> f)
      in clamp (reputationScore + reward) 0 1)"

subsection \<open>Data and handlers of \<^verbatim>\<open>filter-reputation.go\<close>\<close>

record Reputation =
  ipAddress :: "string \<rightharpoonup> real"
  rdnsB :: "string \<rightharpoonup> real"
  hostname :: "string \<rightharpoonup> real"

definition NewReputation :: Reputation where
  "NewReputation = \<lparr>ipAddress = Map.empty, rdnsB = Map.empty, hostname = Map.empty\<rparr>"

definition IPAddress :: "Reputation \<Rightarrow> IP \<Rightarrow> real" where
  "IPAddress r ipa = (case ipAddress r (IP_String ipa) of Some score \<Rightarrow> score | None \<Rightarrow> 0.5)"

definition ReverseDNS :: "Reputation \<Rightarrow> string \<Rightarrow> real" where
  "ReverseDNS r h = (case rdnsB r h of Some score \<Rightarrow> score | None \<Rightarrow> 0.5)"

definition Hostname :: "Reputation \<Rightarrow> string \<Rightarrow> real" where
  "Hostname r h = (case hostname r h of Some score \<Rightarrow> score | None \<Rightarrow> 0.5)"

record SessionDataB =
  hasReverseDNS :: bool
  hasFcReverseDNS :: bool
  hasStartTLS :: bool
  hasAuth :: bool
  hasEHLO :: bool
  rDNS :: string
  ip :: IP
  helonameB :: string
  txBegin :: int
  txData :: int
  txCommit :: int
  txRollback :: int
  txMailFrom :: int
  txRcptTo :: int
  rsetCount :: int
  failedAuth :: int
  failedMail :: int
  failedRcpt :: int
  overallReputation :: real
  ipReputation :: real
  rdnsReputation :: real
  heloReputation :: real

text \<open>The session \<open>&SessionData{}\<close> the allocator of \<^verbatim>\<open>filter-reputation.go\<close> returns.\<close>

definition newSessionDataB :: SessionDataB where
  "newSessionDataB =
     \<lparr>hasReverseDNS = False, hasFcReverseDNS = False, hasStartTLS = False, hasAuth = False,
      hasEHLO = False, rDNS = [], ip = [], helonameB = [], txBegin = 0, txData = 0,
      txCommit = 0, txRollback = 0, txMailFrom = 0, txRcptTo = 0, rsetCount = 0,
      failedAuth = 0, failedMail = 0, failedRcpt = 0, overallReputation = 0,
      ipReputation = 0, rdnsReputation = 0, heloReputation = 0\<rparr>"

text \<open>
  The state a handler of \<^verbatim>\<open>filter-reputation.go\<close> works on: the connection's session
  and the tables behind the package-level pointer \<open>reputation\<close>. The lines printed to
  standard error repeat values that are stored and are left out.
\<close>

record WorldB =
  sessionB :: SessionDataB
  reputation :: Reputation

text \<open>
  \<open>Feedback\<close> writes the three blended values into the session, then into the three
  tables, in the order of the source (the tables are distinct maps).
\<close>

definition Feedback :: "Reputation \<Rightarrow> SessionDataB \<Rightarrow> Reputation \<times> SessionDataB" where
  "Feedback r s =
     (let overall = overallReputation s;
          ipFeedback = overall * ipWeight;
          rdnsFeedback = overall * rdnsWeight;
          hostnameFeedback = overall * helonameWeight;
          s = s\<lparr>ipReputation := clamp ((ipReputation s + ipFeedback) / 2) 0 1\<rparr>;
          s = s\<lparr>rdnsReputation := clamp ((rdnsReputation s + rdnsFeedback) / 2) 0 1\<rparr>;
          s = s\<lparr>heloReputation := clamp ((heloReputation s + hostnameFeedback) / 2) 0 1\<rparr>;
          r = r\<lparr>ipAddress := (ipAddress r)(IP_String (ip s) \<mapsto> ipReputation s)\<rparr>;
          r = r\<lparr>rdnsB := (rdnsB r)(rDNS s \<mapsto> rdnsReputation s)\<rparr>;
          r = r\<lparr>hostname := (hostname r)(helonameB s \<mapsto> heloReputation s)\<rparr>
      in (r, s))"

text \<open>
  \<open>src.(*net.TCPAddr)\<close> is a type assertion in its one-value form: on any other address
  the Go run time panics. \<open>ToLower\<close> stands for \<open>strings.ToLower\<close>.
\<close>

definition linkConnectCbB ::
  "(string \<Rightarrow> string) \<Rightarrow> Time \<Rightarrow> string \<Rightarrow> string \<Rightarrow> Addr \<Rightarrow> Addr \<Rightarrow> WorldB
   \<Rightarrow> panic + WorldB" where
  "linkConnectCbB ToLower timestamp rdns_s fcrdns_s src dest w =
     (case src of
        TCPAddr ipa port \<Rightarrow>
          let s = sessionB w;
              s = s\<lparr>ip := ipa\<rparr>;
              s = s\<lparr>rDNS := ToLower rdns_s\<rparr>;
              s = s\<lparr>hasReverseDNS := (rdns_s \<noteq> ''<unknown>'')\<rparr>;
              s = s\<lparr>hasFcReverseDNS := (fcrdns_s \<noteq> ''ok'')\<rparr>;
              ipScore = IPAddress (reputation w) (ip s);
              rdnsScore = ReverseDNS (reputation w) (rDNS s);
              overall = ((ipScore * ipWeight) + (rdnsScore * rdnsWeight)) / 2;
              (ipScore, rdnsScore) =
                (if \<not> hasReverseDNS s
                 then (applyPenalty ''rDNS'' ipScore, applyPenalty ''rDNS'' rdnsScore)
                 else (applyReward ''rDNS'' ipScore, applyReward ''rDNS'' rdnsScore));
              (ipScore, rdnsScore) =
                (if \<not> hasFcReverseDNS s
                 then (applyPenalty ''FCrDNS'' ipScore, applyPenalty ''rDNS'' rdnsScore)
                 else (applyReward ''FCrDNS'' ipScore, applyReward ''rDNS'' rdnsScore));
              s = s\<lparr>overallReputation := overall\<rparr>;
              s = s\<lparr>ipReputation := ipScore\<rparr>;
              s = s\<lparr>rdnsReputation := rdnsScore\<rparr>
          in Inr (w\<lparr>sessionB := s\<rparr>)
      | _ \<Rightarrow> Inl TypeAssertionFailed)"

definition linkDisconnectCbB :: "Time \<Rightarrow> WorldB \<Rightarrow> panic + WorldB" where
  "linkDisconnectCbB timestamp w =
     (let (r, s) = Feedback (reputation w) (sessionB w)
      in Inr (w\<lparr>sessionB := s, reputation := r\<rparr>))"

definition linkIdentifyCbB ::
  "(string \<Rightarrow> string) \<Rightarrow> Time \<Rightarrow> string \<Rightarrow> string \<Rightarrow> WorldB \<Rightarrow> panic + WorldB" where
  "linkIdentifyCbB ToLower timestamp method hostname_s w =
     (let s = sessionB w;
          s = s\<lparr>hasEHLO := (method = ''EHLO'')\<rparr>;
          s = s\<lparr>helonameB := ToLower hostname_s\<rparr>;
          ipScore = IPAddress (reputation w) (ip s);
          rdnsScore = ReverseDNS (reputation w) (rDNS s);
          helonameScore = Hostname (reputation w) (helonameB s);
          (ipScore, rdnsScore, helonameScore) =
            (if hasReverseDNS s
             then if ToLower hostname_s \<noteq> rDNS s
                  then (applyPenalty ''heloname'' ipScore, applyPenalty ''heloname'' rdnsScore,
                        applyPenalty ''heloname'' helonameScore)
                  else (applyReward ''heloname'' ipScore, applyReward ''heloname'' rdnsScore,
                        applyReward ''heloname'' helonameScore)
             else (ipScore, rdnsScore, helonameScore));
          s = s\<lparr>heloReputation := helonameScore\<rparr>;
          overall = ((ipScore * ipWeight) + (rdnsScore * rdnsWeight)
                     + (helonameScore * helonameWeight)) / 3;
          s = s\<lparr>overallReputation := overall\<rparr>
      in Inr (w\<lparr>sessionB := s\<rparr>))"

definition linkAuthCbB :: "Time \<Rightarrow> string \<Rightarrow> string \<Rightarrow> WorldB \<Rightarrow> panic + WorldB" where
  "linkAuthCbB timestamp result username w =
     (let s = sessionB w
      in Inr (w\<lparr>sessionB := (if result \<noteq> ''ok'' then s\<lparr>failedAuth := failedAuth s + 1\<rparr>
                               else s\<lparr>hasAuth := True\<rparr>)\<rparr>))"

definition linkTLSCbB :: "Time \<Rightarrow> string \<Rightarrow> WorldB \<Rightarrow> panic + WorldB" where
  "linkTLSCbB timestamp tls w = Inr (w\<lparr>sessionB := (sessionB w)\<lparr>hasStartTLS := True\<rparr>\<rparr>)"

definition txResetCbB :: "Time \<Rightarrow> string \<Rightarrow> WorldB \<Rightarrow> panic + WorldB" where
  "txResetCbB timestamp messageId w =
     Inr (w\<lparr>sessionB := (sessionB w)\<lparr>rsetCount := rsetCount (sessionB w) + 1\<rparr>\<rparr>)"

definition txBeginCbB :: "Time \<Rightarrow> string \<Rightarrow> WorldB \<Rightarrow> panic + WorldB" where
  "txBeginCbB timestamp messageId w =
     Inr (w\<lparr>sessionB := (sessionB w)\<lparr>txBegin := txBegin (sessionB w) + 1\<rparr>\<rparr>)"

definition txMailCbB :: "Time \<Rightarrow> string \<Rightarrow> string \<Rightarrow> string \<Rightarrow> WorldB \<Rightarrow> panic + WorldB" where
  "txMailCbB timestamp messageId result from w =
     (let s = sessionB w;
          s = s\<lparr>txMailFrom := txMailFrom s + 1\<rparr>;
          s = (if result \<noteq> ''ok''
               then let s = s\<lparr>failedMail := failedMail s + 1\<rparr>
                    in s\<lparr>overallReputation := applyPenalty ''mailFrom'' (overallReputation s)\<rparr>
               else s\<lparr>overallReputation := applyReward ''mailFrom'' (overallReputation s)\<rparr>)
      in Inr (w\<lparr>sessionB := s\<rparr>))"

definition txRcptCbB :: "Time \<Rightarrow> string \<Rightarrow> string \<Rightarrow> string \<Rightarrow> WorldB \<Rightarrow> panic + WorldB" where
  "txRcptCbB timestamp messageId result to w =
     (let s = sessionB w;
          s = s\<lparr>txRcptTo := txRcptTo s + 1\<rparr>;
          s = (if result \<noteq> ''ok''
               then let s = s\<lparr>failedRcpt := failedRcpt s + 1\<rparr>
                    in s\<lparr>overallReputation := applyPenalty ''recipient'' (overallReputation s)\<rparr>
               else s\<lparr>overallReputation := applyReward ''recipient'' (overallReputation s)\<rparr>)
      in Inr (w\<lparr>sessionB := s\<rparr>))"

definition txDataCbB :: "Time \<Rightarrow> string \<Rightarrow> string \<Rightarrow> WorldB \<Rightarrow> panic + WorldB" where
  "txDataCbB timestamp messageId result w =
     Inr (w\<lparr>sessionB := (sessionB w)\<lparr>txData := txData (sessionB w) + 1\<rparr>\<rparr>)"

definition txCommitCbB :: "Time \<Rightarrow> string \<Rightarrow> int \<Rightarrow> WorldB \<Rightarrow> panic + WorldB" where
  "txCommitCbB timestamp messageId messageSize w =
     Inr (w\<lparr>sessionB := (sessionB w)\<lparr>txCommit := txCommit (sessionB w) + 1\<rparr>\<rparr>)"

definition txRollbackCbB :: "Time \<Rightarrow> string \<Rightarrow> WorldB \<Rightarrow> panic + WorldB" where
  "txRollbackCbB timestamp messageId w =
     Inr (w\<lparr>sessionB := (sessionB w)\<lparr>txRollback := txRollback (sessionB w) + 1\<rparr>\<rparr>)"

fun handleB :: "(string \<Rightarrow> string) \<Rightarrow> Event \<Rightarrow> WorldB \<Rightarrow> panic + WorldB" where
  "handleB ToLower (LinkConnect t r f src dest) w = linkConnectCbB ToLower t r f src dest w"
| "handleB ToLower (LinkDisconnect t) w = linkDisconnectCbB t w"
| "handleB ToLower (LinkIdentify t m h) w = linkIdentifyCbB ToLower t m h w"
| "handleB ToLower (LinkAuth t r u) w = linkAuthCbB t r u w"
| "handleB ToLower (LinkTLS t s) w = linkTLSCbB t s w"
| "handleB ToLower (TxReset t i) w = txResetCbB t i w"
| "handleB ToLower (TxBegin t i) w = txBeginCbB t i w"
| "handleB ToLower (TxMail t i r a) w = txMailCbB t i r a w"
| "handleB ToLower (TxRcpt t i r a) w = txRcptCbB t i r a w"
| "handleB ToLower (TxData t i r) w = txDataCbB t i r w"
| "handleB ToLower (TxCommit t i n) w = txCommitCbB t i n w"
| "handleB ToLower (TxRollback t i) w = txRollbackCbB t i w"

subsection \<open>Properties of the scorers\<close>

lemma fold_add_score:
  "fold (\<lambda>tx acc. acc + f tx) txs (a::real) = a + sum_list (map f txs)"
  by (induction txs arbitrary: a) simp_all

lemma clamp_unit_bounds: "0 \<le> max 0 (min 1 (x::real)) \<and> max 0 (min 1 x) \<le> 1"
  by simp

text \<open>
  C1. The transaction score starts at 0, gains 0.4 for an accepted sender, 0.3 for a data
  phase, 0.3 for a commit and 0.1 per accepted recipient, loses 0.2 per failed recipient
  (temporary and permanent failures together) and is clamped to the interval from 0 to 1.
  A transaction with accepted sender, data, commit, two accepted recipients and no failed
  one scores exactly 1.
\<close>

theorem scoreTransaction_formula:
  "scoreTransaction tx =
     max 0 (min 1
       ((if mailFromOK tx then 0.4 else 0) + (if sawData tx then 0.3 else 0)
        + (if committed tx then 0.3 else 0)
        + 0.1 * real_of_int (rcptToOK tx)
        - 0.2 * real_of_int (rcptToTempfail tx + rcptToPermfail tx)))
   \<and> 0 \<le> scoreTransaction tx \<and> scoreTransaction tx \<le> 1
   \<and> (mailFromOK tx \<and> sawData tx \<and> committed tx \<and> rcptToOK tx = 2
        \<and> rcptToTempfail tx + rcptToPermfail tx = 0 \<longrightarrow> scoreTransaction tx = 1)"
proof -
  have eq: "scoreTransaction tx =
     max 0 (min 1
       ((if mailFromOK tx then 0.4 else 0) + (if sawData tx then 0.3 else 0)
        + (if committed tx then 0.3 else 0)
        + 0.1 * real_of_int (rcptToOK tx)
        - 0.2 * real_of_int (rcptToTempfail tx + rcptToPermfail tx)))"
    unfolding scoreTransaction_def Let_def
    by (rule arg_cong [where f = "\<lambda>x. max 0 (min 1 x)"]) simp
  have bounds: "0 \<le> scoreTransaction tx \<and> scoreTransaction tx \<le> 1"
    unfolding scoreTransaction_def Let_def by (rule clamp_unit_bounds)
  have full: "mailFromOK tx \<and> sawData tx \<and> committed tx \<and> rcptToOK tx = 2
        \<and> rcptToTempfail tx + rcptToPermfail tx = 0 \<longrightarrow> scoreTransaction tx = 1"
  proof
    assume h: "mailFromOK tx \<and> sawData tx \<and> committed tx \<and> rcptToOK tx = 2
        \<and> rcptToTempfail tx + rcptToPermfail tx = 0"
    show "scoreTransaction tx = 1"
      by (simp only: eq) (simp add: h)
  qed
  from eq bounds full show ?thesis by blast
qed

theorem scoreTransaction_formula_witness:
  "(let tx = \<lparr>beginTime = 10, endTime = 20, mailFromOK = True, rcptToOK = 2,
              rcptToTempfail = 0, rcptToPermfail = 0, sawData = True, committed = True\<rparr>
    in mailFromOK tx \<and> sawData tx \<and> committed tx \<and> rcptToOK tx = 2
       \<and> rcptToTempfail tx + rcptToPermfail tx = 0 \<and> scoreTransaction tx = 1)"
  using scoreTransaction_formula
    [of "\<lparr>beginTime = 10, endTime = 20, mailFromOK = True, rcptToOK = 2,
          rcptToTempfail = 0, rcptToPermfail = 0, sawData = True, committed = True\<rparr>"]
  by simp

text \<open>
  C2. The session score is the mean of the transaction scores when the session has a
  transaction (0 otherwise), plus 0.1 per authentication success, minus 0.1 per
  authentication failure, plus 0.2 for TLS, plus 0.1 for a resolved reverse DNS, plus 0.1
  for a forward-confirmed reverse DNS, minus 0.05 per reset, clamped to the interval from
  0 to 1.
\<close>

theorem scoreSession_formula:
  "scoreSession s =
     max 0 (min 1
       ((if transactions s \<noteq> []
         then sum_list (map scoreTransaction (transactions s)) / real (length (transactions s))
         else 0)
        + 0.1 * real_of_int (authok s) - 0.1 * real_of_int (authfail s)
        + (if cmdTLS s then 0.2 else 0) + (if rdns s then 0.1 else 0)
        + (if fcrdns s then 0.1 else 0) - 0.05 * real_of_int (nResets s)))
   \<and> 0 \<le> scoreSession s \<and> scoreSession s \<le> 1"
proof -
  have eq: "scoreSession s =
     max 0 (min 1
       ((if transactions s \<noteq> []
         then sum_list (map scoreTransaction (transactions s)) / real (length (transactions s))
         else 0)
        + 0.1 * real_of_int (authok s) - 0.1 * real_of_int (authfail s)
        + (if cmdTLS s then 0.2 else 0) + (if rdns s then 0.1 else 0)
        + (if fcrdns s then 0.1 else 0) - 0.05 * real_of_int (nResets s)))"
    unfolding scoreSession_def Let_def fold_add_score
    by (rule arg_cong [where f = "\<lambda>x. max 0 (min 1 x)"]) simp
  have "0 \<le> scoreSession s \<and> scoreSession s \<le> 1"
    unfolding scoreSession_def Let_def by (rule clamp_unit_bounds)
  with eq show ?thesis by blast
qed

subsection \<open>The prior computed at connect\<close>

lemma fold_aggregate_Score:
  "Score (fold (\<lambda>score aggregate.
                  aggregate\<lparr>Score := Score aggregate + Score score,
                    AuthFailures := AuthFailures aggregate + AuthFailures score,
                    AuthSuccesses := AuthSuccesses aggregate + AuthSuccesses score,
                    Resets := Resets aggregate + Resets score,
                    RcptCount := RcptCount aggregate + RcptCount score,
                    DataCount := DataCount aggregate + DataCount score,
                    CommitCount := CommitCount aggregate + CommitCount score,
                    RollbackCount := RollbackCount aggregate + RollbackCount score\<rparr>)
               scores a)
   = Score a + sum_list (map Score scores)"
  by (induction scores arbitrary: a) simp_all

lemma aggregateScoring_Score:
  "\<not> length scores < 5 \<Longrightarrow>
   Score (aggregateScoring scores) = sum_list (map Score scores) / real (length scores)"
  by (auto simp add: aggregateScoring_def Let_def fold_aggregate_Score zeroScoring_def)

text \<open>
  C3. The score \<open>linkConnectCb\<close> computes from the history of the connecting address (the
  value it prints) is 0.5 when the address has no entry or fewer than 5 summaries,
  whatever their scores, and the arithmetic mean of all stored scores otherwise; five
  summaries with scores 0.2, 0.4, 0.6, 0.8, 1.0 give 0.6.
\<close>

theorem connect_prior_trust:
  "\<exists>w' score.
     linkConnectCb t r f (TCPAddr a port) dest w = Inr w'
     \<and> stderr w' = stderr w @ [LogConnect (IP_String a) score]
     \<and> score =
         (case ipScoring w (IP_String a) of
            None \<Rightarrow> 0.5
          | Some ss \<Rightarrow>
              if length ss < 5 then 0.5 else sum_list (map Score ss) / real (length ss))
     \<and> (\<forall>ss. ipScoring w (IP_String a) = Some ss \<and> length ss < 5 \<longrightarrow> score = 0.5)
     \<and> (\<forall>ss. ipScoring w (IP_String a) = Some ss
              \<and> map Score ss = [0.2, 0.4, 0.6, 0.8, 1.0] \<longrightarrow> score = 0.6)"
proof -
  let ?score =
    "case ipScoring w (IP_String a) of
       None \<Rightarrow> 0.5
     | Some ss \<Rightarrow> if length ss < 5 then 0.5 else sum_list (map Score ss) / real (length ss)"
  let ?s = "(session w)\<lparr>transactions := [], connectTime := t, addr := a,
              rdns := (r \<noteq> ''<unknown>''), fcrdns := (f = ''ok'' \<or> f = ''pass'')\<rparr>"
  have run: "linkConnectCb t r f (TCPAddr a port) dest w =
      Inr (w\<lparr>session := ?s, stderr := stderr w @ [LogConnect (IP_String a) ?score]\<rparr>)"
  proof (cases "ipScoring w (IP_String a)")
    case None
    then show ?thesis by (simp add: linkConnectCb_def Let_def)
  next
    case (Some ss)
    then show ?thesis by (simp add: linkConnectCb_def Let_def aggregateScoring_Score)
  qed
  have few: "\<forall>ss. ipScoring w (IP_String a) = Some ss \<and> length ss < 5 \<longrightarrow> ?score = 0.5"
    by simp
  have five: "\<forall>ss. ipScoring w (IP_String a) = Some ss
      \<and> map Score ss = [0.2, 0.4, 0.6, 0.8, 1.0] \<longrightarrow> ?score = 0.6"
  proof (intro allI impI)
    fix ss
    assume h: "ipScoring w (IP_String a) = Some ss \<and> map Score ss = [0.2, 0.4, 0.6, 0.8, 1.0]"
    then have "length (map Score ss) = 5" by simp
    then have "length ss = 5" by simp
    with h show "?score = 0.6" by simp
  qed
  define sc where "sc = ?score"
  define w1 where "w1 = w\<lparr>session := ?s, stderr := stderr w @ [LogConnect (IP_String a) sc]\<rparr>"
  have c1: "linkConnectCb t r f (TCPAddr a port) dest w = Inr w1"
    using run by (simp add: w1_def sc_def)
  have c2: "stderr w1 = stderr w @ [LogConnect (IP_String a) sc]"
    by (simp add: w1_def)
  have c3: "sc = ?score" by (simp add: sc_def)
  have c4: "\<forall>ss. ipScoring w (IP_String a) = Some ss \<and> length ss < 5 \<longrightarrow> sc = 0.5"
    using few by (simp add: sc_def)
  have c5: "\<forall>ss. ipScoring w (IP_String a) = Some ss
      \<and> map Score ss = [0.2, 0.4, 0.6, 0.8, 1.0] \<longrightarrow> sc = 0.6"
    using five by (simp only: sc_def)
  show ?thesis
    by (rule exI [of _ w1], rule exI [of _ sc]) (intro conjI c1 c2 c3 c4 c5)
qed

definition fiveScorings :: "Scoring list" where
  "fiveScorings = map (\<lambda>x. zeroScoring\<lparr>Score := x\<rparr>) [0.2, 0.4, 0.6, 0.8, 1.0]"

definition worldWithHistory :: World where
  "worldWithHistory =
     \<lparr>session = newSessionData, ipScoring = [''192.0.2.1'' \<mapsto> fiveScorings], stderr = []\<rparr>"

theorem connect_prior_trust_witness:
  "ipScoring worldWithHistory (IP_String ''192.0.2.1'') = Some fiveScorings
   \<and> map Score fiveScorings = [0.2, 0.4, 0.6, 0.8, 1.0]
   \<and> (\<exists>w'. linkConnectCb 7 ''mx.example.org'' ''pass'' (TCPAddr ''192.0.2.1'' 4242)
               (TCPAddr ''192.0.2.25'' 25) worldWithHistory = Inr w'
          \<and> stderr w' = [LogConnect ''192.0.2.1'' 0.6])"
proof -
  have h1: "ipScoring worldWithHistory (IP_String ''192.0.2.1'') = Some fiveScorings"
    by (simp add: worldWithHistory_def IP_String_def)
  have h2: "map Score fiveScorings = [0.2, 0.4, 0.6, 0.8, 1.0]"
    by (simp add: fiveScorings_def)
  from connect_prior_trust [of 7 "''mx.example.org''" "''pass''" "''192.0.2.1''" 4242
      "TCPAddr ''192.0.2.25'' 25" worldWithHistory]
  obtain w' score where
    r: "linkConnectCb 7 ''mx.example.org'' ''pass'' (TCPAddr ''192.0.2.1'' 4242)
          (TCPAddr ''192.0.2.25'' 25) worldWithHistory = Inr w'"
    and l: "stderr w' = stderr worldWithHistory @ [LogConnect (IP_String ''192.0.2.1'') score]"
    and v: "\<forall>ss. ipScoring worldWithHistory (IP_String ''192.0.2.1'') = Some ss
              \<and> map Score ss = [0.2, 0.4, 0.6, 0.8, 1.0] \<longrightarrow> score = 0.6"
    by blast
  from v [rule_format, OF conjI [OF h1 h2]] have "score = 0.6" .
  with l have "stderr w' = [LogConnect ''192.0.2.1'' 0.6]"
    by (simp add: worldWithHistory_def IP_String_def)
  with h1 h2 r show ?thesis by blast
qed

subsection \<open>One pass of the sweep\<close>

text \<open>What one pass leaves of a key's entry.\<close>

definition sweptEntry :: "Time \<Rightarrow> Scoring list option \<Rightarrow> Scoring list option" where
  "sweptEntry now e =
     (case e of
        None \<Rightarrow> None
      | Some s \<Rightarrow>
          if length s > 100 then Some (drop (length s - 100) s)
          else if Timestamp (last s) + fiveDays < now then None
          else Some s)"

lemma sweptEntry_nonempty: "e \<noteq> Some [] \<Longrightarrow> sweptEntry now e \<noteq> Some []"
  by (auto simp add: sweptEntry_def split: option.splits if_splits)

lemma sweepKey_present:
  assumes "m key = Some s" and "s \<noteq> []"
  shows "\<exists>lg'. sweepKey now key (m, lg) = Inr (m(key := sweptEntry now (Some s)), lg')"
  using assms by (auto simp add: sweepKey_def sweptEntry_def last_conv_nth map_upd_triv)

lemma sweepPass_result:
  "distinct ks \<Longrightarrow> set ks \<subseteq> dom m \<Longrightarrow> \<forall>k. m k \<noteq> Some [] \<Longrightarrow>
   \<exists>m' lg'. sweepPass now ks (m, lg) = Inr (m', lg')
     \<and> (\<forall>k. m' k = (if k \<in> set ks then sweptEntry now (m k) else m k))"
proof (induction ks arbitrary: m lg)
  case Nil
  then show ?case by simp
next
  case (Cons key ips)
  from Cons.prems obtain s where s: "m key = Some s" by auto
  with Cons.prems have ne: "s \<noteq> []" by auto
  let ?m1 = "m(key := sweptEntry now (Some s))"
  from sweepKey_present [of m key s now lg, OF s ne] obtain lg1 where
    step: "sweepKey now key (m, lg) = Inr (?m1, lg1)" by blast
  have d: "distinct ips" and notin: "key \<notin> set ips" using Cons.prems by simp_all
  have sub: "set ips \<subseteq> dom ?m1" using Cons.prems notin by auto
  have inv: "\<forall>k. ?m1 k \<noteq> Some []"
    using Cons.prems(3) ne sweptEntry_nonempty [of "Some s" now] by simp
  from Cons.IH [OF d sub inv, of lg1] obtain m' lg' where
    r: "sweepPass now ips (?m1, lg1) = Inr (m', lg')"
    and v: "\<forall>k. m' k = (if k \<in> set ips then sweptEntry now (?m1 k) else ?m1 k)" by blast
  have "sweepPass now (key # ips) (m, lg) = Inr (m', lg')" using step r by simp
  moreover have "\<forall>k. m' k = (if k \<in> set (key # ips) then sweptEntry now (m k) else m k)"
    using v notin s by auto
  ultimately show ?case by blast
qed

text \<open>
  C4. One pass of the sweep, visiting the keys of the store in any order \<open>ks\<close>, on a
  store whose sequences are non-empty (sequences enter the store by \<open>append\<close> only):
  a sequence of more than 100 entries is cut to its last 100 entries, in their order,
  and stays in the store whatever its timestamps are; a sequence of at most 100 entries
  whose last entry is more than five days older than the clock reading is deleted with
  its key; any other sequence is left as it is.
\<close>

theorem sweep_pass_per_key:
  assumes "distinct ks" and "set ks = dom m" and "[] \<notin> ran m"
  shows "\<exists>m' lg'. sweepPass now ks (m, lg) = Inr (m', lg')
     \<and> (\<forall>k s. m k = Some s \<longrightarrow>
           (if length s > 100
            then m' k = Some (drop (length s - 100) s)
                 \<and> length (drop (length s - 100) s) = 100
                 \<and> take (length s - 100) s @ drop (length s - 100) s = s
            else if Timestamp (last s) + fiveDays < now then m' k = None
            else m' k = Some s))
     \<and> (\<forall>k. m k = None \<longrightarrow> m' k = None)"
proof -
  have inv: "\<forall>k. m k \<noteq> Some []" using assms(3) by (auto simp add: ran_def)
  have sub: "set ks \<subseteq> dom m" using assms(2) by simp
  from sweepPass_result [OF assms(1) sub inv, of now lg] obtain m' lg' where
    r: "sweepPass now ks (m, lg) = Inr (m', lg')"
    and v: "\<forall>k. m' k = (if k \<in> set ks then sweptEntry now (m k) else m k)" by blast
  have a: "\<forall>k s. m k = Some s \<longrightarrow>
           (if length s > 100
            then m' k = Some (drop (length s - 100) s)
                 \<and> length (drop (length s - 100) s) = 100
                 \<and> take (length s - 100) s @ drop (length s - 100) s = s
            else if Timestamp (last s) + fiveDays < now then m' k = None
            else m' k = Some s)"
  proof (intro allI impI)
    fix k s assume ks: "m k = Some s"
    then have "k \<in> set ks" using assms(2) by auto
    then have "m' k = sweptEntry now (Some s)" using v ks by simp
    then show "(if length s > 100
            then m' k = Some (drop (length s - 100) s)
                 \<and> length (drop (length s - 100) s) = 100
                 \<and> take (length s - 100) s @ drop (length s - 100) s = s
            else if Timestamp (last s) + fiveDays < now then m' k = None
            else m' k = Some s)"
      by (simp add: sweptEntry_def)
  qed
  have b: "\<forall>k. m k = None \<longrightarrow> m' k = None"
  proof (intro allI impI)
    fix k assume "m k = None"
    then show "m' k = None" using v by (simp add: sweptEntry_def)
  qed
  from r a b show ?thesis by blast
qed

definition staleScoring :: Scoring where
  "staleScoring = zeroScoring\<lparr>Timestamp := 1000, Score := 0.7\<rparr>"

text \<open>
  A stale sequence of one entry and a stale sequence of 101 entries: the first is deleted,
  the second is cut to 100 entries and stays.
\<close>

definition sweepExample :: Store where
  "sweepExample = [''192.0.2.7'' \<mapsto> [staleScoring], ''192.0.2.8'' \<mapsto> replicate 101 staleScoring]"

theorem sweep_pass_per_key_witness:
  "distinct [''192.0.2.7'', ''192.0.2.8'']
   \<and> set [''192.0.2.7'', ''192.0.2.8''] = dom sweepExample
   \<and> [] \<notin> ran sweepExample
   \<and> (\<exists>m' lg'. sweepPass (1001 + fiveDays) [''192.0.2.7'', ''192.0.2.8''] (sweepExample, [])
                    = Inr (m', lg')
          \<and> m' ''192.0.2.7'' = None
          \<and> m' ''192.0.2.8'' = Some (replicate 100 staleScoring))"
proof -
  have h1: "distinct [''192.0.2.7'', ''192.0.2.8'']" by simp
  have h2: "set [''192.0.2.7'', ''192.0.2.8''] = dom sweepExample"
    by (auto simp add: sweepExample_def)
  have h3: "[] \<notin> ran sweepExample"
    by (auto simp add: sweepExample_def ran_def split: if_splits)
  have k7: "sweepExample ''192.0.2.7'' = Some [staleScoring]"
    by (simp add: sweepExample_def)
  have k8: "sweepExample ''192.0.2.8'' = Some (replicate 101 staleScoring)"
    by (simp add: sweepExample_def)
  from sweep_pass_per_key [OF h1 h2 h3, of "1001 + fiveDays" "[]"] obtain m' lg' where
    r: "sweepPass (1001 + fiveDays) [''192.0.2.7'', ''192.0.2.8''] (sweepExample, [])
          = Inr (m', lg')"
    and v: "\<forall>k s. sweepExample k = Some s \<longrightarrow>
           (if length s > 100
            then m' k = Some (drop (length s - 100) s)
                 \<and> length (drop (length s - 100) s) = 100
                 \<and> take (length s - 100) s @ drop (length s - 100) s = s
            else if Timestamp (last s) + fiveDays < 1001 + fiveDays then m' k = None
            else m' k = Some s)" by blast
  from v [rule_format, OF k7] have c7: "m' ''192.0.2.7'' = None"
    by (simp add: staleScoring_def zeroScoring_def)
  from v [rule_format, OF k8] have c8: "m' ''192.0.2.8'' = Some (replicate 100 staleScoring)"
    by simp
  from h1 h2 h3 r c7 c8 show ?thesis by blast
qed

subsection \<open>Skipped sessions\<close>

fun isLinkConnect :: "Event \<Rightarrow> bool" where
  "isLinkConnect (LinkConnect t r f src dest) = True"
| "isLinkConnect _ = False"

lemmas handler_defs =
  linkDisconnectCb_def linkIdentifyCb_def linkAuthCb_def linkTLSCb_def txResetCb_def
  txBeginCb_def txMailCb_def txRcptCb_def txDataCb_def txCommitCb_def txRollbackCb_def

lemma handle_skip:
  "skip (session w) \<Longrightarrow> \<not> isLinkConnect e \<Longrightarrow> handle now e w = Inr w"
  by (cases e) (simp_all add: handler_defs)

lemma run_skip:
  "skip (session w) \<Longrightarrow> list_all (\<lambda>x. \<not> isLinkConnect (snd x)) es \<Longrightarrow> run es w = Inr w"
proof (induction es)
  case Nil
  then show ?case by simp
next
  case (Cons x es)
  obtain now e where x: "x = (now, e)" by (cases x)
  with Cons.prems have "handle now e w = Inr w" by (simp add: handle_skip)
  with Cons x show ?case by simp
qed

lemma linkConnectCb_nonTCP:
  "linkConnectCb t r f (UnixAddr p) dest w = Inr (w\<lparr>session := (session w)\<lparr>skip := True\<rparr>\<rparr>)"
  by (simp add: linkConnectCb_def)

text \<open>
  C9. A connect event whose source is not a TCP address marks the session \<open>skip\<close> and
  changes nothing else. On a session marked \<open>skip\<close> every handler of a later event
  (identify, auth, TLS, reset, begin, mail, rcpt, data, commit, rollback, disconnect;
  connect is the first event of a session and does not come again) returns the state as
  it is: session, history and log. So after such a connect any sequence of later events,
  its disconnect included, leaves the history \<open>ipScoring\<close> as it was: no summary of the
  session is recorded.
\<close>

theorem skipped_session_ignored:
  "linkConnectCb t r f (UnixAddr p) dest w = Inr (w\<lparr>session := (session w)\<lparr>skip := True\<rparr>\<rparr>)
   \<and> skip (session (w\<lparr>session := (session w)\<lparr>skip := True\<rparr>\<rparr>))
   \<and> (\<forall>w1 now e. skip (session w1) \<and> \<not> isLinkConnect e \<longrightarrow> handle now e w1 = Inr w1)
   \<and> (\<forall>w1 now ts. skip (session w1) \<longrightarrow>
          linkDisconnectCb now ts w1 = Inr w1)
   \<and> (\<forall>n es. list_all (\<lambda>x. \<not> isLinkConnect (snd x)) es \<longrightarrow>
          run ((n, LinkConnect t r f (UnixAddr p) dest) # es) w
            = Inr (w\<lparr>session := (session w)\<lparr>skip := True\<rparr>\<rparr>))"
proof -
  have a: "linkConnectCb t r f (UnixAddr p) dest w
      = Inr (w\<lparr>session := (session w)\<lparr>skip := True\<rparr>\<rparr>)"
    by (rule linkConnectCb_nonTCP)
  have b: "skip (session (w\<lparr>session := (session w)\<lparr>skip := True\<rparr>\<rparr>))" by simp
  have c: "\<forall>w1 now e. skip (session w1) \<and> \<not> isLinkConnect e \<longrightarrow> handle now e w1 = Inr w1"
    by (simp add: handle_skip)
  have d: "\<forall>w1 now ts. skip (session w1) \<longrightarrow> linkDisconnectCb now ts w1 = Inr w1"
    by (simp add: linkDisconnectCb_def)
  have e: "\<forall>n es. list_all (\<lambda>x. \<not> isLinkConnect (snd x)) es \<longrightarrow>
          run ((n, LinkConnect t r f (UnixAddr p) dest) # es) w
            = Inr (w\<lparr>session := (session w)\<lparr>skip := True\<rparr>\<rparr>)"
    using b by (simp add: a run_skip)
  from a b c d e show ?thesis by blast
qed

definition freshWorld :: World where
  "freshWorld = \<lparr>session = newSessionData, ipScoring = Map.empty, stderr = []\<rparr>"

theorem skipped_session_ignored_witness:
  "skip (session (freshWorld\<lparr>session := newSessionData\<lparr>skip := True\<rparr>\<rparr>))
   \<and> \<not> isLinkConnect (TxBegin 3 ''4f2a'')
   \<and> handle 3 (TxBegin 3 ''4f2a'') (freshWorld\<lparr>session := newSessionData\<lparr>skip := True\<rparr>\<rparr>)
       = Inr (freshWorld\<lparr>session := newSessionData\<lparr>skip := True\<rparr>\<rparr>)
   \<and> linkDisconnectCb 7 7 (freshWorld\<lparr>session := newSessionData\<lparr>skip := True\<rparr>\<rparr>)
       = Inr (freshWorld\<lparr>session := newSessionData\<lparr>skip := True\<rparr>\<rparr>)
   \<and> list_all (\<lambda>x. \<not> isLinkConnect (snd x))
        [(2::int, LinkIdentify 2 ''EHLO'' ''localhost''),
         (3, TxBegin 3 ''4f2a''),
         (4, TxMail 4 ''4f2a'' ''ok'' ''root@localhost''),
         (5, TxRcpt 5 ''4f2a'' ''ok'' ''postmaster@localhost''),
         (6, TxCommit 6 ''4f2a'' 512),
         (7, LinkDisconnect 7)]
   \<and> run ((1, LinkConnect 1 ''localhost'' ''pass'' (UnixAddr ''/var/run/smtpd.sock'')
                (UnixAddr ''/var/run/smtpd.sock''))
           # [(2, LinkIdentify 2 ''EHLO'' ''localhost''),
              (3, TxBegin 3 ''4f2a''),
              (4, TxMail 4 ''4f2a'' ''ok'' ''root@localhost''),
              (5, TxRcpt 5 ''4f2a'' ''ok'' ''postmaster@localhost''),
              (6, TxCommit 6 ''4f2a'' 512),
              (7, LinkDisconnect 7)]) freshWorld
       = Inr (freshWorld\<lparr>session := newSessionData\<lparr>skip := True\<rparr>\<rparr>)"
proof -
  let ?w1 = "freshWorld\<lparr>session := newSessionData\<lparr>skip := True\<rparr>\<rparr>"
  let ?es = "[(2::int, LinkIdentify 2 ''EHLO'' ''localhost''),
         (3, TxBegin 3 ''4f2a''),
         (4, TxMail 4 ''4f2a'' ''ok'' ''root@localhost''),
         (5, TxRcpt 5 ''4f2a'' ''ok'' ''postmaster@localhost''),
         (6, TxCommit 6 ''4f2a'' 512),
         (7, LinkDisconnect 7)]"
  note inst = skipped_session_ignored [of 1 "''localhost''" "''pass''" "''/var/run/smtpd.sock''"
      "UnixAddr ''/var/run/smtpd.sock''" freshWorld]
  have fw: "session freshWorld = newSessionData" by (simp add: freshWorld_def)
  have h1: "skip (session ?w1)" by simp
  have h2: "\<not> isLinkConnect (TxBegin 3 ''4f2a'')" by simp
  have h3: "list_all (\<lambda>x. \<not> isLinkConnect (snd x)) ?es" by simp
  from inst h1 h2 have c1: "handle 3 (TxBegin 3 ''4f2a'') ?w1 = Inr ?w1" by blast
  from inst h1 have c2: "linkDisconnectCb 7 7 ?w1 = Inr ?w1" by blast
  from inst have "\<forall>n es. list_all (\<lambda>x. \<not> isLinkConnect (snd x)) es \<longrightarrow>
          run ((n, LinkConnect 1 ''localhost'' ''pass'' (UnixAddr ''/var/run/smtpd.sock'')
                (UnixAddr ''/var/run/smtpd.sock'')) # es) freshWorld
            = Inr (freshWorld\<lparr>session := (session freshWorld)\<lparr>skip := True\<rparr>\<rparr>)"
    by blast
  with h3 have c3: "run ((1, LinkConnect 1 ''localhost'' ''pass'' (UnixAddr ''/var/run/smtpd.sock'')
                (UnixAddr ''/var/run/smtpd.sock'')) # ?es) freshWorld = Inr ?w1"
    by (simp only: fw)
  from h1 h2 c1 c2 h3 c3 show ?thesis by (intro conjI)
qed

subsection \<open>Handlers that panic\<close>

lemma updLastTx_empty: "transactions s = [] \<Longrightarrow> updLastTx f s = Inl IndexOutOfRange"
  by (simp add: updLastTx_def)

text \<open>
  C8. The handlers are not all total. In \<^verbatim>\<open>filter-reputation.go\<close> the connect handler
  asserts the source address to be a TCP address without the two-value form, so a connect
  from a local socket panics (\<^verbatim>\<open>part_000\<close> tests the assertion and marks the session
  \<open>skip\<close>). In \<^verbatim>\<open>part_000\<close> the mail, rcpt, data, commit and rollback handlers index
  the last transaction of a session that has none and panic.
\<close>

theorem handlers_panic:
  "linkConnectCbB ToLower t r f (UnixAddr p) dest wb = Inl TypeAssertionFailed
   \<and> run [(n1, LinkConnect t1 r f (TCPAddr a port) dest), (n2, TxMail t2 i res frm)]
        \<lparr>session = newSessionData, ipScoring = st, stderr = lg\<rparr> = Inl IndexOutOfRange
   \<and> txRcptCb t2 i res rcpt \<lparr>session = newSessionData, ipScoring = st, stderr = lg\<rparr>
        = Inl IndexOutOfRange
   \<and> txDataCb t2 i res \<lparr>session = newSessionData, ipScoring = st, stderr = lg\<rparr>
        = Inl IndexOutOfRange
   \<and> txCommitCb t2 i sz \<lparr>session = newSessionData, ipScoring = st, stderr = lg\<rparr>
        = Inl IndexOutOfRange
   \<and> txRollbackCb t2 i \<lparr>session = newSessionData, ipScoring = st, stderr = lg\<rparr>
        = Inl IndexOutOfRange"
  by (simp add: linkConnectCbB_def linkConnectCb_def txMailCb_def txRcptCb_def txDataCb_def
      txCommitCb_def txRollbackCb_def updLastTx_empty newSessionData_def Let_def
      split: option.splits)

text \<open>
  The handlers of \<^verbatim>\<open>filter-reputation.go\<close> index nothing: apart from a connect from
  a non-TCP address they all return.
\<close>

lemma handleB_total:
  "(\<forall>t r f p dest. e \<noteq> LinkConnect t r f (UnixAddr p) dest) \<Longrightarrow> \<exists>w'. handleB ToLower e w = Inr w'"
proof (cases e)
  case (LinkConnect t r f src dest)
  assume "\<forall>t r f p dest. e \<noteq> LinkConnect t r f (UnixAddr p) dest"
  with LinkConnect obtain a port where "src = TCPAddr a port" by (cases src) auto
  with LinkConnect show ?thesis by (simp add: linkConnectCbB_def Let_def split: prod.splits)
qed (simp_all add: linkDisconnectCbB_def linkIdentifyCbB_def linkAuthCbB_def linkTLSCbB_def
      txResetCbB_def txBeginCbB_def txMailCbB_def txRcptCbB_def txDataCbB_def txCommitCbB_def
      txRollbackCbB_def Let_def split: prod.splits)

subsection \<open>The history holds non-empty sequences only\<close>

text \<open>
  The sweep reads the last entry of every sequence it does not cut. That entry exists:
  the disconnect handler, the only handler that writes \<open>ipScoring\<close>, appends to a
  sequence, and the sweep either keeps 100 entries, deletes the key or leaves the
  sequence alone.
\<close>

lemma linkConnectCb_store:
  "linkConnectCb t r f src dest w = Inr w' \<Longrightarrow> ipScoring w' = ipScoring w"
  by (cases src) (auto simp add: linkConnectCb_def Let_def)

lemma linkDisconnectCb_store:
  "linkDisconnectCb now t w = Inr w' \<Longrightarrow> \<forall>k. ipScoring w k \<noteq> Some [] \<Longrightarrow>
   \<forall>k. ipScoring w' k \<noteq> Some []"
  by (auto simp add: linkDisconnectCb_def Let_def split: if_splits)


lemma handle_keeps_nonempty:
  assumes "handle now e w = Inr w'" and "\<forall>k. ipScoring w k \<noteq> Some []"
  shows "\<forall>k. ipScoring w' k \<noteq> Some []"
proof (cases e)
  case (LinkConnect t r f src dest)
  then show ?thesis using assms linkConnectCb_store [of t r f src dest w w'] by simp
next
  case (LinkDisconnect t)
  then show ?thesis using assms linkDisconnectCb_store [of now t w w'] by simp
qed (insert assms, auto simp add: handler_defs Let_def split: if_splits sum.splits)

lemma run_keeps_nonempty:
  "run es w = Inr w' \<Longrightarrow> \<forall>k. ipScoring w k \<noteq> Some [] \<Longrightarrow>
   \<forall>k. ipScoring w' k \<noteq> Some []"
proof (induction es arbitrary: w)
  case Nil
  then show ?case by simp
next
  case (Cons x es)
  obtain now e where x: "x = (now, e)" by (cases x)
  from Cons.prems(1) x obtain w1 where h: "handle now e w = Inr w1" and r: "run es w1 = Inr w'"
    by (auto split: sum.splits)
  from handle_keeps_nonempty [OF h Cons.prems(2)] have "\<forall>k. ipScoring w1 k \<noteq> Some []" .
  with Cons.IH [OF r] show ?case by blast
qed

lemma sweepPass_keeps_nonempty:
  assumes "distinct ks" and "set ks \<subseteq> dom m" and "\<forall>k. m k \<noteq> Some []"
    and "sweepPass now ks (m, lg) = Inr (m', lg')"
  shows "\<forall>k. m' k \<noteq> Some []"
proof -
  from sweepPass_result [OF assms(1-3), of now lg] assms(4)
  have v: "\<forall>k. m' k = (if k \<in> set ks then sweptEntry now (m k) else m k)" by simp
  show ?thesis
  proof
    fix k
    show "m' k \<noteq> Some []"
      using v assms(3) sweptEntry_nonempty [of "m k" now] by simp
  qed
qed

subsection \<open>Reward and penalty\<close>

lemma degradationFactors_listed:
  "degradationFactors c = Some f \<Longrightarrow> 0 < f \<and> f \<le> 1"
  by (auto simp add: degradationFactors_def split: if_splits)

lemma FCrDNS_unlisted: "degradationFactors ''FCrDNS'' = None"
  by (simp add: degradationFactors_def)

lemma applyReward_listed:
  "degradationFactors c = Some f \<Longrightarrow> applyReward c v = clamp (v + 0.05 * f) 0 1"
  by (simp add: applyReward_def baseReward_def)

lemma applyPenalty_listed:
  "degradationFactors c = Some f \<Longrightarrow> applyPenalty c v = clamp (v - 0.1 * f) 0 1"
  by (simp add: applyPenalty_def basePenalty_def)

lemma applyReward_unlisted:
  "degradationFactors c = None \<Longrightarrow> applyReward c v = clamp v 0 1"
  by (simp add: applyReward_def)

lemma applyPenalty_unlisted:
  "degradationFactors c = None \<Longrightarrow> applyPenalty c v = clamp v 0 1"
  by (simp add: applyPenalty_def)

lemma clamp_unit: "0 \<le> clamp x 0 1 \<and> clamp x 0 1 \<le> 1"
  by (simp add: clamp_def)

lemma clamp_id: "0 \<le> x \<Longrightarrow> x \<le> 1 \<Longrightarrow> clamp x 0 1 = x"
  by (simp add: clamp_def)

lemma clamp_applyReward: "clamp (applyReward c x) 0 1 = applyReward c x"
  by (simp add: applyReward_def Let_def clamp_unit clamp_id)

lemma clamp_applyPenalty: "clamp (applyPenalty c x) 0 1 = applyPenalty c x"
  by (simp add: applyPenalty_def Let_def clamp_unit clamp_id)

lemma penalty_of_reward_le:
  assumes "0 \<le> v" and "v \<le> 1"
  shows "applyPenalty c (applyReward c v) \<le> v"
proof (cases "degradationFactors c")
  case None
  then show ?thesis using assms
    by (simp add: applyReward_unlisted applyPenalty_unlisted clamp_def)
next
  case (Some f)
  then have "0 < f" by (simp add: degradationFactors_listed)
  then show ?thesis using assms Some
    by (simp add: applyReward_listed applyPenalty_listed clamp_def)
qed

text \<open>
  C7 (as amended). For every class \<open>c\<close> of the table \<open>degradationFactors\<close> and every
  \<open>v\<close> between 0 and 1: \<open>applyReward c v\<close> and \<open>applyPenalty c v\<close> lie between 0 and 1;
  the reward does not lower \<open>v\<close> and raises it when \<open>v < 1\<close>; the penalty does not raise
  \<open>v\<close> and lowers it when \<open>0 < v\<close>; and a penalty applied to a rewarded value is never
  above the value one started from: \<open>applyPenalty c (applyReward c v) \<le> v\<close>.
\<close>

theorem reward_penalty_direction:
  assumes "c \<in> dom degradationFactors" and "0 \<le> v" and "v \<le> 1"
  shows "0 \<le> applyReward c v \<and> applyReward c v \<le> 1
     \<and> 0 \<le> applyPenalty c v \<and> applyPenalty c v \<le> 1
     \<and> v \<le> applyReward c v \<and> (v < 1 \<longrightarrow> v < applyReward c v)
     \<and> applyPenalty c v \<le> v \<and> (0 < v \<longrightarrow> applyPenalty c v < v)
     \<and> applyPenalty c (applyReward c v) \<le> v"
proof -
  from assms(1) obtain f where f: "degradationFactors c = Some f" by auto
  then have pos: "0 < f" by (simp add: degradationFactors_listed)
  have r: "applyReward c v = clamp (v + 0.05 * f) 0 1" using f by (rule applyReward_listed)
  have p: "applyPenalty c v = clamp (v - 0.1 * f) 0 1" using f by (rule applyPenalty_listed)
  have b: "0 \<le> applyReward c v \<and> applyReward c v \<le> 1
     \<and> 0 \<le> applyPenalty c v \<and> applyPenalty c v \<le> 1"
    by (simp add: r p clamp_unit)
  have up: "v \<le> applyReward c v \<and> (v < 1 \<longrightarrow> v < applyReward c v)"
    using pos assms(2,3) by (simp add: r clamp_def)
  have down: "applyPenalty c v \<le> v \<and> (0 < v \<longrightarrow> applyPenalty c v < v)"
    using pos assms(2,3) by (simp add: p clamp_def)
  have again: "applyPenalty c (applyReward c v) \<le> v"
    using assms(2,3) by (rule penalty_of_reward_le)
  from b up down again show ?thesis by blast
qed

theorem reward_penalty_direction_witness:
  "''heloname'' \<in> dom degradationFactors \<and> (0::real) \<le> 0.5 \<and> (0.5::real) \<le> 1
   \<and> applyReward ''heloname'' 0.5 = 0.53 \<and> applyPenalty ''heloname'' 0.5 = 0.44
   \<and> (0.5::real) < applyReward ''heloname'' 0.5 \<and> applyPenalty ''heloname'' 0.5 < 0.5
   \<and> applyPenalty ''heloname'' (applyReward ''heloname'' 0.5) \<le> 0.5"
proof -
  have h1: "''heloname'' \<in> dom degradationFactors" by (simp add: degradationFactors_def)
  have h2: "(0::real) \<le> 0.5" and h3: "(0.5::real) \<le> 1" by simp_all
  have e1: "applyReward ''heloname'' 0.5 = 0.53"
    by (simp add: applyReward_def baseReward_def degradationFactors_def clamp_def)
  have e2: "applyPenalty ''heloname'' 0.5 = 0.44"
    by (simp add: applyPenalty_def basePenalty_def degradationFactors_def clamp_def)
  from reward_penalty_direction [OF h1 h2 h3]
  have "(0.5::real) < applyReward ''heloname'' 0.5 \<and> applyPenalty ''heloname'' 0.5 < 0.5
     \<and> applyPenalty ''heloname'' (applyReward ''heloname'' 0.5) \<le> 0.5"
    by simp
  with h1 h2 h3 e1 e2 show ?thesis by blast
qed

text \<open>
  The last part of C7 as it was stated, that some class and some value between 0 and 1
  have \<open>applyPenalty c (applyReward c v) > v\<close>, fails: no class name at all, listed or
  not, and no such value do.
\<close>

theorem penalty_of_reward_never_above:
  "\<not> (\<exists>c v. 0 \<le> v \<and> v \<le> 1 \<and> applyPenalty c (applyReward c v) > v)"
proof
  assume "\<exists>c v. 0 \<le> v \<and> v \<le> 1 \<and> applyPenalty c (applyReward c v) > v"
  then obtain c v where "0 \<le> v" and "v \<le> 1" and gt: "applyPenalty c (applyReward c v) > v"
    by blast
  then have "applyPenalty c (applyReward c v) \<le> v" by (simp add: penalty_of_reward_le)
  with gt show False by simp
qed

subsection \<open>Connect and disconnect in \<^verbatim>\<open>filter-reputation.go\<close>\<close>

text \<open>The state after a connect from a TCP address, field by field.\<close>

lemma linkConnectCbB_TCP:
  "linkConnectCbB ToLower t r f (TCPAddr a port) dest w =
     Inr (w\<lparr>sessionB := (sessionB w)
       \<lparr>ip := a, rDNS := ToLower r, hasReverseDNS := (r \<noteq> ''<unknown>''),
        hasFcReverseDNS := (f \<noteq> ''ok''),
        overallReputation :=
          (IPAddress (reputation w) a * ipWeight
           + ReverseDNS (reputation w) (ToLower r) * rdnsWeight) / 2,
        ipReputation :=
          (let ip1 = (if r \<noteq> ''<unknown>''
                      then applyReward ''rDNS'' (IPAddress (reputation w) a)
                      else applyPenalty ''rDNS'' (IPAddress (reputation w) a))
           in if f \<noteq> ''ok'' then applyReward ''FCrDNS'' ip1 else applyPenalty ''FCrDNS'' ip1),
        rdnsReputation :=
          (let rd1 = (if r \<noteq> ''<unknown>''
                      then applyReward ''rDNS'' (ReverseDNS (reputation w) (ToLower r))
                      else applyPenalty ''rDNS'' (ReverseDNS (reputation w) (ToLower r)))
           in if f \<noteq> ''ok'' then applyReward ''rDNS'' rd1 else applyPenalty ''rDNS'' rd1)\<rparr>\<rparr>)"
  by (simp add: linkConnectCbB_def Let_def)

text \<open>
  Line 172 of \<^verbatim>\<open>filter-reputation.go\<close> sets \<open>hasFcReverseDNS\<close> to \<open>fcrdns != "ok"\<close>,
  against the name of the field: a connect whose forward confirmation is \<open>ok\<close> leaves
  the flag unset, and every other outcome, a failed confirmation included, sets it. The
  handler of \<^verbatim>\<open>part_000\<close> (line 254) reads the same string as
  \<open>fcrdns == "ok" || fcrdns == "pass"\<close>. With the flag inverted, the second adjustment
  penalizes the reverse-DNS trust of a confirmed host and rewards that of any other: on
  empty tables a host with reverse DNS ends at 0.46 when its confirmation is \<open>ok\<close> and at
  0.58 when it is \<open>fail\<close>.
\<close>

lemma connect_fcrdns_flag_inverted:
  "\<exists>w'. linkConnectCbB ToLower t r f (TCPAddr a port) dest w = Inr w'
     \<and> hasFcReverseDNS (sessionB w') = (f \<noteq> ''ok'')"
  by (simp add: linkConnectCbB_TCP)

definition freshWorldB :: WorldB where
  "freshWorldB = \<lparr>sessionB = newSessionDataB, reputation = NewReputation\<rparr>"

lemma connect_confirmation_penalized:
  "\<exists>w'. linkConnectCbB ToLower 1 ''mx.example.org'' ''ok'' (TCPAddr ''192.0.2.1'' 4242)
           (TCPAddr ''192.0.2.25'' 25) freshWorldB = Inr w'
     \<and> \<not> hasFcReverseDNS (sessionB w') \<and> rdnsReputation (sessionB w') = 0.46"
  by (simp add: linkConnectCbB_TCP freshWorldB_def ReverseDNS_def NewReputation_def
      applyReward_def applyPenalty_def baseReward_def basePenalty_def degradationFactors_def
      clamp_def)

lemma connect_failure_rewarded:
  "\<exists>w'. linkConnectCbB ToLower 1 ''mx.example.org'' ''fail'' (TCPAddr ''192.0.2.1'' 4242)
           (TCPAddr ''192.0.2.25'' 25) freshWorldB = Inr w'
     \<and> hasFcReverseDNS (sessionB w') \<and> rdnsReputation (sessionB w') = 0.58"
  by (simp add: linkConnectCbB_TCP freshWorldB_def ReverseDNS_def NewReputation_def
      applyReward_def applyPenalty_def baseReward_def basePenalty_def degradationFactors_def
      clamp_def)

text \<open>
  C5 (as amended). On a connect from a TCP address the handler sets the session's overall
  trust to \<open>(0.5 * ipTrust + 0.3 * rdnsTrust) / 2\<close>, where both trusts are the values looked
  up in the tables (the reverse-DNS one under the lower-cased name), before any
  adjustment. The adjusted values are stored as the session's IP trust and reverse-DNS
  trust only. Each is first rewarded (class \<open>rDNS\<close>) when reverse DNS is present and
  penalized otherwise. Each is then adjusted once more on the session's
  forward-confirmation flag \<open>hasFcReverseDNS\<close>, rewarded when the flag is set and
  penalized when it is not, the IP trust with class \<open>FCrDNS\<close> and the reverse-DNS trust
  with class \<open>rDNS\<close>. The flag is decided by the test of \<open>fcrdns\<close> against \<open>ok\<close>: two
  connects that differ in \<open>fcrdns\<close> only store the same flag exactly when both strings
  are \<open>ok\<close> or neither is. Which of the two outcomes sets the flag is not part of this
  statement (see \<open>connect_fcrdns_flag_inverted\<close>). The tables are not written.
\<close>

theorem connect_overall_before_adjustment:
  "\<exists>w'. linkConnectCbB ToLower t r f (TCPAddr a port) dest w = Inr w'
     \<and> reputation w' = reputation w
     \<and> overallReputation (sessionB w')
         = (IPAddress (reputation w) a * 0.5 + ReverseDNS (reputation w) (ToLower r) * 0.3) / 2
     \<and> hasReverseDNS (sessionB w') = (r \<noteq> ''<unknown>'')
     \<and> (let ip1 = (if hasReverseDNS (sessionB w')
                     then applyReward ''rDNS'' (IPAddress (reputation w) a)
                     else applyPenalty ''rDNS'' (IPAddress (reputation w) a));
             rd1 = (if hasReverseDNS (sessionB w')
                     then applyReward ''rDNS'' (ReverseDNS (reputation w) (ToLower r))
                     else applyPenalty ''rDNS'' (ReverseDNS (reputation w) (ToLower r)))
         in ipReputation (sessionB w')
              = (if hasFcReverseDNS (sessionB w') then applyReward ''FCrDNS'' ip1
                 else applyPenalty ''FCrDNS'' ip1)
            \<and> rdnsReputation (sessionB w')
              = (if hasFcReverseDNS (sessionB w') then applyReward ''rDNS'' rd1
                 else applyPenalty ''rDNS'' rd1))
     \<and> (\<forall>f2. \<exists>w2. linkConnectCbB ToLower t r f2 (TCPAddr a port) dest w = Inr w2
           \<and> (hasFcReverseDNS (sessionB w2) = hasFcReverseDNS (sessionB w'))
               = ((f2 = ''ok'') = (f = ''ok'')))"
proof -
  define w1 where "w1 = w\<lparr>sessionB := (sessionB w)
       \<lparr>ip := a, rDNS := ToLower r, hasReverseDNS := (r \<noteq> ''<unknown>''),
        hasFcReverseDNS := (f \<noteq> ''ok''),
        overallReputation :=
          (IPAddress (reputation w) a * ipWeight
           + ReverseDNS (reputation w) (ToLower r) * rdnsWeight) / 2,
        ipReputation :=
          (let ip1 = (if r \<noteq> ''<unknown>''
                      then applyReward ''rDNS'' (IPAddress (reputation w) a)
                      else applyPenalty ''rDNS'' (IPAddress (reputation w) a))
           in if f \<noteq> ''ok'' then applyReward ''FCrDNS'' ip1 else applyPenalty ''FCrDNS'' ip1),
        rdnsReputation :=
          (let rd1 = (if r \<noteq> ''<unknown>''
                      then applyReward ''rDNS'' (ReverseDNS (reputation w) (ToLower r))
                      else applyPenalty ''rDNS'' (ReverseDNS (reputation w) (ToLower r)))
           in if f \<noteq> ''ok'' then applyReward ''rDNS'' rd1 else applyPenalty ''rDNS'' rd1)\<rparr>\<rparr>"
  have c1: "linkConnectCbB ToLower t r f (TCPAddr a port) dest w = Inr w1"
    by (simp only: w1_def linkConnectCbB_TCP)
  have c2: "reputation w1 = reputation w" by (simp add: w1_def)
  have c3: "overallReputation (sessionB w1)
      = (IPAddress (reputation w) a * 0.5 + ReverseDNS (reputation w) (ToLower r) * 0.3) / 2"
    by (simp add: w1_def ipWeight_def rdnsWeight_def)
  have c4: "hasReverseDNS (sessionB w1) = (r \<noteq> ''<unknown>'')" by (simp add: w1_def)
  have c5: "let ip1 = (if hasReverseDNS (sessionB w1)
                     then applyReward ''rDNS'' (IPAddress (reputation w) a)
                     else applyPenalty ''rDNS'' (IPAddress (reputation w) a));
             rd1 = (if hasReverseDNS (sessionB w1)
                     then applyReward ''rDNS'' (ReverseDNS (reputation w) (ToLower r))
                     else applyPenalty ''rDNS'' (ReverseDNS (reputation w) (ToLower r)))
         in ipReputation (sessionB w1)
              = (if hasFcReverseDNS (sessionB w1) then applyReward ''FCrDNS'' ip1
                 else applyPenalty ''FCrDNS'' ip1)
            \<and> rdnsReputation (sessionB w1)
              = (if hasFcReverseDNS (sessionB w1) then applyReward ''rDNS'' rd1
                 else applyPenalty ''rDNS'' rd1)"
    by (simp add: w1_def Let_def)
  have c6: "\<forall>f2. \<exists>w2. linkConnectCbB ToLower t r f2 (TCPAddr a port) dest w = Inr w2
           \<and> (hasFcReverseDNS (sessionB w2) = hasFcReverseDNS (sessionB w1))
               = ((f2 = ''ok'') = (f = ''ok''))"
  proof
    fix f2
    from connect_fcrdns_flag_inverted [of ToLower t r f2 a port dest w] obtain w2 where
      r2: "linkConnectCbB ToLower t r f2 (TCPAddr a port) dest w = Inr w2"
      and g2: "hasFcReverseDNS (sessionB w2) = (f2 \<noteq> ''ok'')" by blast
    have g1: "hasFcReverseDNS (sessionB w1) = (f \<noteq> ''ok'')" by (simp add: w1_def)
    have "(hasFcReverseDNS (sessionB w2) = hasFcReverseDNS (sessionB w1))
               = ((f2 = ''ok'') = (f = ''ok''))"
      by (simp only: g1 g2) blast
    with r2 show "\<exists>w2. linkConnectCbB ToLower t r f2 (TCPAddr a port) dest w = Inr w2
           \<and> (hasFcReverseDNS (sessionB w2) = hasFcReverseDNS (sessionB w1))
               = ((f2 = ''ok'') = (f = ''ok''))" by blast
  qed
  show ?thesis
    by (rule exI [of _ w1]) (intro conjI c1 c2 c3 c4 c5 c6)
qed

text \<open>
  C5 as it was stated fails on the first connect of a host with reverse DNS and a
  forward confirmation \<open>ok\<close>, on empty tables, whatever \<open>strings.ToLower\<close> makes of the
  name: the overall trust is 0.2, computed from the two looked-up values 0.5, while the
  stored component trusts are 0.54 and 0.46; 0.2 is not the blend of these, with or
  without the division by 2, nor the blend of 0.54 and the twice rewarded 0.58, and the
  stored reverse-DNS trust is not 0.58.
\<close>

theorem connect_overall_not_blend_of_adjusted:
  "(\<forall>ToLower.
      linkConnectCbB ToLower 1 ''mx.example.org'' ''ok'' (TCPAddr ''192.0.2.1'' 4242)
        (TCPAddr ''192.0.2.25'' 25) freshWorldB
      = Inr (freshWorldB\<lparr>sessionB := newSessionDataB
          \<lparr>ip := ''192.0.2.1'', rDNS := ToLower ''mx.example.org'', hasReverseDNS := True,
           hasFcReverseDNS := False, overallReputation := 0.2, ipReputation := 0.54,
           rdnsReputation := 0.46\<rparr>\<rparr>))
   \<and> (0.2::real) \<noteq> 0.54 * ipWeight + 0.46 * rdnsWeight
   \<and> (0.2::real) \<noteq> (0.54 * ipWeight + 0.46 * rdnsWeight) / 2
   \<and> (0.2::real) \<noteq> 0.54 * ipWeight + 0.58 * rdnsWeight
   \<and> (\<forall>name. applyReward ''rDNS'' (applyReward ''rDNS'' (ReverseDNS NewReputation name))
       = 0.58)"
proof -
  have c1: "\<forall>ToLower.
      linkConnectCbB ToLower 1 ''mx.example.org'' ''ok'' (TCPAddr ''192.0.2.1'' 4242)
        (TCPAddr ''192.0.2.25'' 25) freshWorldB
      = Inr (freshWorldB\<lparr>sessionB := newSessionDataB
          \<lparr>ip := ''192.0.2.1'', rDNS := ToLower ''mx.example.org'', hasReverseDNS := True,
           hasFcReverseDNS := False, overallReputation := 0.2, ipReputation := 0.54,
           rdnsReputation := 0.46\<rparr>\<rparr>)"
    by (simp add: linkConnectCbB_TCP freshWorldB_def IPAddress_def ReverseDNS_def
        NewReputation_def applyReward_def applyPenalty_def baseReward_def basePenalty_def
        degradationFactors_def clamp_def ipWeight_def rdnsWeight_def)
  have c2: "(0.2::real) \<noteq> 0.54 * ipWeight + 0.46 * rdnsWeight"
    by (simp add: ipWeight_def rdnsWeight_def)
  have c3: "(0.2::real) \<noteq> (0.54 * ipWeight + 0.46 * rdnsWeight) / 2"
    by (simp add: ipWeight_def rdnsWeight_def)
  have c5: "(0.2::real) \<noteq> 0.54 * ipWeight + 0.58 * rdnsWeight"
    by (simp add: ipWeight_def rdnsWeight_def)
  have c4: "\<forall>name. applyReward ''rDNS'' (applyReward ''rDNS'' (ReverseDNS NewReputation name))
       = 0.58"
    by (simp add: ReverseDNS_def NewReputation_def applyReward_def baseReward_def
        degradationFactors_def clamp_def)
  from c1 c2 c3 c5 c4 show ?thesis by (intro conjI)
qed

text \<open>
  C6. \<open>Feedback\<close>, which is all the disconnect handler does, replaces the session's IP,
  reverse-DNS and HELO trust by \<open>clamp ((current + overall * weight) / 2) 0 1\<close> with
  weights 0.5, 0.3 and 0.2, leaves the rest of the session as it is, and writes exactly
  these three values into the three tables under the session's address text, reverse-DNS
  name and HELO name; every other entry of the tables stays.
\<close>

theorem feedback_blend:
  "(let overall = overallReputation s;
        r' = fst (Feedback r s);
        s' = snd (Feedback r s)
    in ipReputation s' = clamp ((ipReputation s + overall * 0.5) / 2) 0 1
       \<and> rdnsReputation s' = clamp ((rdnsReputation s + overall * 0.3) / 2) 0 1
       \<and> heloReputation s' = clamp ((heloReputation s + overall * 0.2) / 2) 0 1
       \<and> s' = s\<lparr>ipReputation := ipReputation s', rdnsReputation := rdnsReputation s',
                 heloReputation := heloReputation s'\<rparr>
       \<and> ipAddress r' = (ipAddress r)(IP_String (ip s) \<mapsto> ipReputation s')
       \<and> rdnsB r' = (rdnsB r)(rDNS s \<mapsto> rdnsReputation s')
       \<and> hostname r' = (hostname r)(helonameB s \<mapsto> heloReputation s')
       \<and> linkDisconnectCbB t \<lparr>sessionB = s, reputation = r\<rparr>
           = Inr \<lparr>sessionB = s', reputation = r'\<rparr>)"
  by (simp add: Feedback_def linkDisconnectCbB_def Let_def ipWeight_def rdnsWeight_def
      helonameWeight_def)

text \<open>
  C10. For a class name that is not in \<open>degradationFactors\<close> and a value between 0 and 1,
  \<open>applyReward\<close> and \<open>applyPenalty\<close> return the value unchanged. \<open>FCrDNS\<close> is such a
  name, so the IP trust a connect stores is the looked-up IP trust after the reverse-DNS
  adjustment alone, whatever the forward confirmation says.
\<close>

theorem unlisted_class_noop:
  "(degradationFactors c = None \<and> 0 \<le> v \<and> v \<le> 1
      \<longrightarrow> applyReward c v = v \<and> applyPenalty c v = v)
   \<and> degradationFactors ''FCrDNS'' = None
   \<and> (\<exists>w'. linkConnectCbB ToLower t r f (TCPAddr a port) dest w = Inr w'
         \<and> ipReputation (sessionB w')
             = (if r \<noteq> ''<unknown>''
                then applyReward ''rDNS'' (IPAddress (reputation w) a)
                else applyPenalty ''rDNS'' (IPAddress (reputation w) a)))"
proof -
  have n: "degradationFactors c = None \<and> 0 \<le> v \<and> v \<le> 1
      \<longrightarrow> applyReward c v = v \<and> applyPenalty c v = v"
    by (simp add: applyReward_unlisted applyPenalty_unlisted clamp_id)
  have c: "ipReputation (sessionB (w\<lparr>sessionB := (sessionB w)
       \<lparr>ip := a, rDNS := ToLower r, hasReverseDNS := (r \<noteq> ''<unknown>''),
        hasFcReverseDNS := (f \<noteq> ''ok''),
        overallReputation :=
          (IPAddress (reputation w) a * ipWeight
           + ReverseDNS (reputation w) (ToLower r) * rdnsWeight) / 2,
        ipReputation :=
          (let ip1 = (if r \<noteq> ''<unknown>''
                      then applyReward ''rDNS'' (IPAddress (reputation w) a)
                      else applyPenalty ''rDNS'' (IPAddress (reputation w) a))
           in if f \<noteq> ''ok'' then applyReward ''FCrDNS'' ip1 else applyPenalty ''FCrDNS'' ip1),
        rdnsReputation :=
          (let rd1 = (if r \<noteq> ''<unknown>''
                      then applyReward ''rDNS'' (ReverseDNS (reputation w) (ToLower r))
                      else applyPenalty ''rDNS'' (ReverseDNS (reputation w) (ToLower r)))
           in if f \<noteq> ''ok'' then applyReward ''rDNS'' rd1 else applyPenalty ''rDNS'' rd1)\<rparr>\<rparr>))
     = (if r \<noteq> ''<unknown>''
                then applyReward ''rDNS'' (IPAddress (reputation w) a)
                else applyPenalty ''rDNS'' (IPAddress (reputation w) a))"
    by (simp add: Let_def applyReward_unlisted applyPenalty_unlisted FCrDNS_unlisted
        clamp_applyReward clamp_applyPenalty)
  from n FCrDNS_unlisted c show ?thesis
    by (simp only: linkConnectCbB_TCP) blast
qed

theorem unlisted_class_noop_witness:
  "degradationFactors ''FCrDNS'' = None \<and> (0::real) \<le> 0.54 \<and> (0.54::real) \<le> 1
   \<and> applyReward ''FCrDNS'' 0.54 = 0.54 \<and> applyPenalty ''FCrDNS'' 0.54 = 0.54"
  using unlisted_class_noop [of "''FCrDNS''" "0.54"]
  by simp

end
